theory Spec2Isabelle
  imports Complex_Main "HOL-Library.Option_ord" "HOL-Library.List_Lexorder"
begin

section \<open>Errors\<close>

text \<open>
  Every exception the modelled functions can raise is a constructor of one datatype;
  a fallible function returns \<open>error + 'a\<close> with \<open>Inl\<close> for the raise.
  \<open>ColumnNotExistingError\<close> carries the set of absent names (the source joins them,
  in set order, into the message).
\<close>

datatype error =
    ColumnNotExistingError "string set"
  | KeyError string
  | MergeError string
  | ValueError string
  | InvalidGroupVars "string list"

section \<open>Cells and columns\<close>

text \<open>
  A numeric cell is a rational number or the missing value (\<open>NaN\<close>, \<open>None\<close> here).
  Floating-point arithmetic is idealised: the numbers are exact rationals, so rounding
  is not part of the model, and \<open>NaN\<close> propagates through arithmetic as \<open>None\<close>.
\<close>

type_synonym val = "rat option"

record frame =
  columns :: "string list"
  rws :: "val list list"

text \<open>
  A grouped column (pandas \<open>SeriesGroupBy\<close>): every row carries the code of its group
  next to its value.
\<close>

type_synonym series_groupby = "(nat \<times> val) list"

datatype data =
    Sequence "val list"
  | Series "val list"
  | GroupBy series_groupby

definition non_missing :: "val list \<Rightarrow> rat list" where
  "non_missing x = [v. Some v \<leftarrow> x]"

definition fsub :: "val \<Rightarrow> val \<Rightarrow> val" where
  "fsub a b = (case (a, b) of (Some p, Some q) \<Rightarrow> Some (p - q) | _ \<Rightarrow> None)"

text \<open>
  Float division: \<open>0 / 0\<close> is \<open>NaN\<close>. A non-zero numerator over zero would be an
  infinity, which the cell type does not have; the quotients formed below have a zero
  numerator whenever the denominator is zero (\<open>zero_denominator_zero_numerator\<close> for \<open>percent_rank\<close>; \<open>cume_dist\<close> divides by the
  number of rows, which is zero only when there is no row).
\<close>

definition fdiv :: "val \<Rightarrow> val \<Rightarrow> val" where
  "fdiv a b = (case (a, b) of
                 (Some p, Some q) \<Rightarrow> if q = 0 then None else Some (p / q)
               | _ \<Rightarrow> None)"

text \<open>\<open>Series.min()\<close> and \<open>Series.max()\<close> skip missing values; with none left they are \<open>NaN\<close>.\<close>

definition series_min :: "val list \<Rightarrow> val" where
  "series_min x = (case non_missing x of [] \<Rightarrow> None | v # vs \<Rightarrow> Some (Min (set (v # vs))))"

definition series_max :: "val list \<Rightarrow> val" where
  "series_max x = (case non_missing x of [] \<Rightarrow> None | v # vs \<Rightarrow> Some (Max (set (v # vs))))"

subsection \<open>Groups of a grouped column\<close>

definition group_values :: "series_groupby \<Rightarrow> nat \<Rightarrow> val list" where
  "group_values g c = map snd (filter (\<lambda>p. fst p = c) g)"

definition group_rows :: "(nat \<times> 'a) list \<Rightarrow> nat \<Rightarrow> nat list" where
  "group_rows g c = [i \<leftarrow> [0..<length g]. fst (g ! i) = c]"

text \<open>\<open>GroupBy.cumcount()\<close>: the number of earlier rows of the same group.\<close>

definition cumcount :: "(nat \<times> 'a) list \<Rightarrow> nat list" where
  "cumcount g = map (\<lambda>i. count_list (map fst (take i g)) (fst (g ! i))) [0..<length g]"

text \<open>
  \<open>GroupBy.transform(f)\<close> and \<open>GroupBy.rank\<close>: \<open>f\<close> runs on the values of each group and
  its results go back to the rows of the group, in row order.
\<close>

definition transform :: "(val list \<Rightarrow> val list) \<Rightarrow> series_groupby \<Rightarrow> val list" where
  "transform f g =
     map (\<lambda>i. f (group_values g (fst (g ! i))) ! (cumcount g ! i)) [0..<length g]"

section \<open>Ranking (datar2/dplyr/_rank.py)\<close>

subsection \<open>pandas' rank\<close>

datatype na_last = NaKeep | NaLast bool

datatype na_option = Keep | Top | Bottom

datatype rank_method = RankMin | RankFirst

text \<open>\<open>"keep" if na_last == "keep" else "top" if not na_last else "bottom"\<close>\<close>

fun na_option_of :: "na_last \<Rightarrow> na_option" where
  "na_option_of NaKeep = Keep"
| "na_option_of (NaLast b) = (if \<not> b then Top else Bottom)"

text \<open>
  \<open>Series.rank(method, pct, na_option)\<close> for the two methods the kernels use. The rank
  of a present value counts the present values below it (method \<open>first\<close> adds the
  earlier ties); missing values are left missing (\<open>keep\<close>) or ranked before (\<open>top\<close>)
  or after (\<open>bottom\<close>) all present values. With \<open>pct\<close> the rank is divided by the
  number of ranked values.
\<close>

definition rank_at :: "rank_method \<Rightarrow> na_option \<Rightarrow> val list \<Rightarrow> nat \<Rightarrow> nat option" where
  "rank_at m na x i =
     (let present = non_missing x;
          nmiss = length x - length present;
          earlier = take i x
      in case x ! i of
           Some v \<Rightarrow>
             Some (1 + length [u \<leftarrow> present. u < v]
                     + (if m = RankFirst then count_list earlier (Some v) else 0)
                     + (if na = Top then nmiss else 0))
         | None \<Rightarrow>
             (case na of
                Keep \<Rightarrow> None
              | Top \<Rightarrow> Some (1 + (if m = RankFirst then count_list earlier None else 0))
              | Bottom \<Rightarrow>
                  Some (1 + length present
                          + (if m = RankFirst then count_list earlier None else 0))))"

definition series_rank :: "rank_method \<Rightarrow> bool \<Rightarrow> na_option \<Rightarrow> val list \<Rightarrow> val list" where
  "series_rank m pct na x =
     (let ranked = (if na = Keep then length (non_missing x) else length x)
      in map (\<lambda>i. case rank_at m na x i of
                     None \<Rightarrow> None
                   | Some r \<Rightarrow> Some (if pct then of_nat r / of_nat ranked else of_nat r))
             [0..<length x])"

fun rank_values :: "data \<Rightarrow> val list" where
  "rank_values (Sequence x) = x"
| "rank_values (Series x) = x"
| "rank_values (GroupBy g) = map snd g"

text \<open>\<open>rank\<close> (the source's \<open>_rank\<close>): the generic version wraps its input in a Series; the GroupBy version ranks per group.\<close>

fun rank :: "data \<Rightarrow> na_last \<Rightarrow> rank_method \<Rightarrow> bool \<Rightarrow> val list" where
  "rank (GroupBy g) na m percent = transform (series_rank m percent (na_option_of na)) g"
| "rank d na m percent = series_rank m percent (na_option_of na) (rank_values d)"

subsection \<open>row\_number\<close>

text \<open>
  \<open>_row_number\<close> is registered for a plain sequence, for a \<open>GroupBy\<close>, for a grouped
  tibble (which hands over its \<open>DataFrameGroupBy\<close>, here the rows with their group
  codes) and for an \<open>NDFrame\<close> (a Series or a table), where only the number of rows counts.
\<close>

datatype row_number_input =
    Column data
  | DataFrame frame
  | TibbleGrouped "string list" "(nat \<times> val list) list"

definition one_based :: "nat list \<Rightarrow> val list" where
  "one_based cs = map (\<lambda>c. Some (of_nat (c + 1))) cs"

definition range1 :: "nat \<Rightarrow> val list" where
  "range1 n = map (\<lambda>i. Some (of_nat i)) [1..<n + 1]"

fun row_number :: "row_number_input \<Rightarrow> val list" where
  "row_number (Column (Sequence x)) = rank (Sequence x) NaKeep RankFirst False"
| "row_number (Column (GroupBy g)) = one_based (cumcount g)"
| "row_number (TibbleGrouped cs g) = one_based (cumcount g)"
| "row_number (Column (Series x)) = range1 (length x)"
| "row_number (DataFrame f) = range1 (length (rws f))"

subsection \<open>ntile\<close>

text \<open>
  \<open>pandas.cut(x, bins, labels=range(bins))\<close> with an integer \<open>bins\<close>: the range of the
  present values is cut into \<open>bins\<close> intervals of equal width, closed on the right; the
  lowest edge is moved down by 0.1 percent of the range so that the minimum falls into
  the first interval; when all present values are equal the range is first widened by
  0.1 percent on both sides. A value gets the number of edges strictly below it, less one.
\<close>

definition linspace :: "rat \<Rightarrow> rat \<Rightarrow> nat \<Rightarrow> rat list" where
  "linspace a b k = map (\<lambda>i. a + of_nat i * ((b - a) / of_nat k)) [0..<k + 1]"

definition bin_edges :: "rat \<Rightarrow> rat \<Rightarrow> nat \<Rightarrow> rat list" where
  "bin_edges mn mx k =
     (if mn = mx then
        linspace (mn - (if mn \<noteq> 0 then (1 / 1000) * \<bar>mn\<bar> else 1 / 1000))
                 (mx + (if mx \<noteq> 0 then (1 / 1000) * \<bar>mx\<bar> else 1 / 1000)) k
      else
        (let bins = linspace mn mx k; adj = (mx - mn) * (1 / 1000)
         in bins[0 := bins ! 0 - adj]))"

definition cut_label :: "rat list \<Rightarrow> val \<Rightarrow> val" where
  "cut_label bins v =
     (case v of
        None \<Rightarrow> None
      | Some r \<Rightarrow>
          (let ids = length [e \<leftarrow> bins. e < r]
           in if ids = length bins \<or> ids = 0 then None else Some (of_nat (ids - 1))))"

text \<open>
  An input without any present value makes every edge \<open>NaN\<close>; pandas rejects the
  repeated edges unless there are just two of them.
\<close>

definition pd_cut :: "val list \<Rightarrow> int \<Rightarrow> error + val list" where
  "pd_cut x bins =
     (if bins < 1 then Inl (ValueError ''bins should be a positive integer'')
      else if length x = 0 then Inl (ValueError ''Cannot cut empty array'')
      else case non_missing x of
             [] \<Rightarrow> if bins = 1 then Inr (map (\<lambda>v. None) x)
                   else Inl (ValueError ''Bin edges must be unique'')
           | v # vs \<Rightarrow>
               Inr (map (cut_label (bin_edges (Min (set (v # vs))) (Max (set (v # vs)))
                                     (nat bins))) x))"

definition ntile_ndarray :: "val list \<Rightarrow> int \<Rightarrow> error + val list" where
  "ntile_ndarray x n =
     (if length x = 0 then Inr []
      else if non_missing x = [] then Inr (replicate (length x) None)
      else pd_cut x (min n (int (length x))))"

text \<open>
  \<open>GroupBy.transform\<close> with a function that may raise: the groups are visited in the
  order of their codes and the first exception ends the call.
\<close>

fun collect :: "(nat \<times> (error + val list)) list \<Rightarrow> error + (nat \<times> val list) list" where
  "collect [] = Inr []"
| "collect ((c, Inl e) # rest) = Inl e"
| "collect ((c, Inr ys) # rest) =
     (case collect rest of Inl e \<Rightarrow> Inl e | Inr res \<Rightarrow> Inr ((c, ys) # res))"

definition transform_raising ::
  "(val list \<Rightarrow> error + val list) \<Rightarrow> series_groupby \<Rightarrow> error + val list" where
  "transform_raising f g =
     (case collect (map (\<lambda>c. (c, f (group_values g c))) (sort (remdups (map fst g)))) of
        Inl e \<Rightarrow> Inl e
      | Inr res \<Rightarrow>
          Inr (map (\<lambda>i. (case map_of res (fst (g ! i)) of
                            None \<Rightarrow> None
                          | Some ys \<Rightarrow> ys ! (cumcount g ! i)))
                   [0..<length g]))"

fun ntile :: "data \<Rightarrow> int \<Rightarrow> error + val list" where
  "ntile (GroupBy g) n =
     transform_raising (\<lambda>grup. pd_cut grup (min n (int (length grup)))) g"
| "ntile d n = ntile_ndarray (rank_values d) n"

subsection \<open>percent\_rank\<close>

definition percent_rank_NDFrame :: "val list \<Rightarrow> na_last \<Rightarrow> val list" where
  "percent_rank_NDFrame x na =
     (let ranking = rank (Series x) na RankMin True;
          minrank = series_min ranking;
          maxrank = series_max ranking;
          ret = map (\<lambda>r. fdiv (fsub r minrank) (fsub maxrank minrank)) ranking
      in map (\<lambda>(r, v). if r = None then None else v) (zip ranking ret))"

definition percent_rank_GroupBy :: "series_groupby \<Rightarrow> na_last \<Rightarrow> val list" where
  "percent_rank_GroupBy g na =
     (let robj = rank (GroupBy g) na RankMin True;
          ranking = zip (map fst g) robj;
          maxs = transform (\<lambda>r. replicate (length r) (series_max r)) ranking;
          mins = transform (\<lambda>r. replicate (length r) (series_min r)) ranking;
          ret = map (\<lambda>(r, mx, mn). fdiv (fsub r mn) (fsub mx mn)) (zip robj (zip maxs mins))
      in map (\<lambda>(r, v). if r = None then None else v) (zip robj ret))"

fun percent_rank :: "data \<Rightarrow> na_last \<Rightarrow> val list" where
  "percent_rank (Sequence x) na = (if length x = 0 then [] else percent_rank_NDFrame x na)"
| "percent_rank (Series x) na = percent_rank_NDFrame x na"
| "percent_rank (GroupBy g) na = percent_rank_GroupBy g na"

subsection \<open>cume\_dist\<close>

text \<open>Comparisons with \<open>NaN\<close> are false, so a missing rank is never counted.\<close>

definition count_le :: "val list \<Rightarrow> val \<Rightarrow> nat" where
  "count_le ranks r = (case r of None \<Rightarrow> 0 | Some b \<Rightarrow> length [a \<leftarrow> non_missing ranks. a \<le> b])"

definition cume_dist_NDFrame :: "val list \<Rightarrow> na_last \<Rightarrow> val list" where
  "cume_dist_NDFrame x na =
     (let ranking = rank (Series x) na RankMin False;
          total = length x;
          ret = map (\<lambda>r. fdiv (Some (of_nat (count_le ranking r))) (Some (of_nat total))) ranking
      in map (\<lambda>(r, v). if r = None then None else v) (zip ranking ret))"

text \<open>
  The GroupBy version computes one array per group and \<open>explode\<close>s them, which lays
  the groups out one after the other in the order of their codes.
\<close>

definition cume_dist_GroupBy :: "series_groupby \<Rightarrow> na_last \<Rightarrow> val list" where
  "cume_dist_GroupBy g na =
     (let ranking = zip (map fst g) (rank (GroupBy g) na RankMin False)
      in concat (map (\<lambda>c. let ranks = group_values ranking c
                           in map (\<lambda>r. if r = None then None
                                        else fdiv (Some (of_nat (count_le ranks r)))
                                                  (Some (of_nat (length ranks)))) ranks)
                     (sort (remdups (map fst g)))))"

fun cume_dist :: "data \<Rightarrow> na_last \<Rightarrow> val list" where
  "cume_dist (Sequence x) na = (if length x = 0 then [] else cume_dist_NDFrame x na)"
| "cume_dist (Series x) na = cume_dist_NDFrame x na"
| "cume_dist (GroupBy g) na = cume_dist_GroupBy g na"

section \<open>Name selection (plyrda/funcs.py)\<close>

text \<open>
  \<open>all_of\<close> and \<open>any_of\<close> receive the column names of \<open>arithmetize(_data)\<close>; that helper
  is not part of the sources, so its result, the column-name list, is the parameter
  \<open>cols\<close>.
\<close>

definition all_of :: "string list \<Rightarrow> string list \<Rightarrow> error + string list" where
  "all_of cols x =
     (let nonexists = set x - set cols
      in if nonexists \<noteq> {} then Inl (ColumnNotExistingError nonexists) else Inr x)"

text \<open>\<open>vars or columns\<close>: an absent or empty \<open>vars\<close> falls back to the columns.\<close>

definition any_of :: "string list \<Rightarrow> string list \<Rightarrow> string list option \<Rightarrow> error + string list" where
  "any_of cols x vars =
     (let vars' = (case vars of None \<Rightarrow> cols | Some v \<Rightarrow> if v = [] then cols else v)
      in Inr [elem \<leftarrow> x. elem \<in> set vars'])"

section \<open>Grouped frames and their attributes (datar/core/grouped.py)\<close>

text \<open>
  A \<open>DatarGroupBy\<close> is a data frame whose \<open>attrs\<close> dictionary carries the pandas
  \<open>DataFrameGroupBy\<close> object (the group index), the group variables and two footers.
  Frames are shared by reference, so the data of a frame lives in a store and objects
  hold addresses: \<open>mgr\<close> is where the rows of a \<open>DatarGroupBy\<close> live, \<open>obj\<close> is the
  frame a \<open>DataFrameGroupBy\<close> partitions.
\<close>

type_synonym addr = nat

record store =
  frame_at :: "addr \<Rightarrow> frame"
  fresh :: addr

definition alloc :: "store \<Rightarrow> frame \<Rightarrow> addr \<times> store" where
  "alloc h f = (fresh h, h\<lparr>frame_at := (frame_at h)(fresh h := f), fresh := Suc (fresh h)\<rparr>)"

record grouper_obj =
  names :: "string option list"
  ngroups :: nat

record DataFrameGroupBy =
  obj :: addr
  grouper :: grouper_obj
  observed :: bool
  sort' :: bool

text \<open>The footers are format strings over the group variables and a count; they are kept unformatted.\<close>

datatype attr =
    Grouped DataFrameGroupBy
  | GroupVars "string list"
  | HtmlFooter "string list" nat
  | StrFooter "string list" nat

record DatarGroupBy =
  mgr :: addr
  attrs :: "(string \<times> attr) list"

datatype groupby_arg = OfGroupBy DataFrameGroupBy | OfDatar DatarGroupBy

definition attr_get :: "(string \<times> attr) list \<Rightarrow> string \<Rightarrow> error + attr" where
  "attr_get as k = (case map_of as k of None \<Rightarrow> Inl (KeyError k) | Some v \<Rightarrow> Inr v)"

text \<open>
  \<open>from_groupby\<close>: \<open>cls(grouped.obj)\<close> and \<open>cls(grouped)\<close> wrap the same data without
  copying it; \<open>group_vars or [...]\<close> falls back to the grouper's names that are not \<open>None\<close>.
\<close>

fun from_groupby :: "groupby_arg \<Rightarrow> string list option \<Rightarrow> error + DatarGroupBy" where
  "from_groupby (OfGroupBy grouped) group_vars =
     (let gv = (case group_vars of
                  None \<Rightarrow> [name. Some name \<leftarrow> names (grouper grouped)]
                | Some v \<Rightarrow> if v = [] then [name. Some name \<leftarrow> names (grouper grouped)] else v)
      in Inr \<lparr>mgr = obj grouped,
              attrs = [(''_grouped'', Grouped grouped),
                       (''_group_vars'', GroupVars gv),
                       (''_html_footer'', HtmlFooter gv (ngroups (grouper grouped))),
                       (''_str_footer'', StrFooter gv (ngroups (grouper grouped)))]\<rparr>)"
| "from_groupby (OfDatar grouped) group_vars =
     (case attr_get (attrs grouped) ''_grouped'' of Inl e \<Rightarrow> Inl e | Inr a \<Rightarrow>
      case attr_get (attrs grouped) ''_group_vars'' of Inl e \<Rightarrow> Inl e | Inr b \<Rightarrow>
      case attr_get (attrs grouped) ''_html_footer'' of Inl e \<Rightarrow> Inl e | Inr c \<Rightarrow>
      case attr_get (attrs grouped) ''_str_footer'' of Inl e \<Rightarrow> Inl e | Inr d \<Rightarrow>
        Inr \<lparr>mgr = mgr grouped,
             attrs = [(''_grouped'', a), (''_group_vars'', b),
                      (''_html_footer'', c), (''_str_footer'', d)]\<rparr>)"

text \<open>
  pandas' \<open>DataFrame.copy(deep)\<close>, reached through \<open>super()\<close>: a deep copy gets its own
  data, a shallow one shares it, and either way the copy is handed the \<open>attrs\<close> of the
  original, entry by entry.
\<close>

definition super_copy :: "store \<Rightarrow> DatarGroupBy \<Rightarrow> bool \<Rightarrow> DatarGroupBy \<times> store" where
  "super_copy h self deep =
     (if deep then
        (let (a, h') = alloc h (frame_at h (mgr self)) in (\<lparr>mgr = a, attrs = attrs self\<rparr>, h'))
      else (\<lparr>mgr = mgr self, attrs = attrs self\<rparr>, h))"

text \<open>
  \<open>copy\<close>. The first test reads the key \<open>"_grouepd"\<close>, as the source spells it. The
  deep branch copies the frame of the group index, groups the copy again with the same
  grouper, \<open>observed\<close> and \<open>sort\<close>, and wraps the result.
\<close>

definition copy :: "store \<Rightarrow> DatarGroupBy \<Rightarrow> bool \<Rightarrow> error + DatarGroupBy \<times> store" where
  "copy h self deep =
     (if ''_grouepd'' \<notin> fst ` set (attrs self) then Inr (super_copy h self deep)
      else if \<not> deep then
        (case from_groupby (OfDatar self) None of Inl e \<Rightarrow> Inl e | Inr out \<Rightarrow> Inr (out, h))
      else
        (case attr_get (attrs self) ''_grouped'' of
           Inl e \<Rightarrow> Inl e
         | Inr (Grouped gb) \<Rightarrow>
             (let (a, h') = alloc h (frame_at h (obj gb));
                  out = \<lparr>obj = a, grouper = grouper gb, observed = observed gb, sort' = sort' gb\<rparr>
              in case attr_get (attrs self) ''_group_vars'' of
                   Inl e \<Rightarrow> Inl e
                 | Inr (GroupVars gv) \<Rightarrow>
                     (case from_groupby (OfGroupBy out) (Some gv) of
                        Inl e \<Rightarrow> Inl e
                      | Inr res \<Rightarrow> Inr (res, h'))
                 | Inr _ \<Rightarrow> Inl (KeyError ''_group_vars''))
         | Inr _ \<Rightarrow> Inl (KeyError ''_grouped'')))"

section \<open>Tibbles and their reconstruction (datar2/dplyr/join.py)\<close>

text \<open>
  A tibble is a frame with a grouping kind and group variables; a grouped tibble also
  keeps the policies it was grouped with (\<open>_drop\<close>, \<open>sort\<close>, \<open>dropna\<close>). The three
  Python classes \<open>Tibble\<close>, \<open>TibbleGrouped\<close> and \<open>TibbleRowwise\<close> are the three kinds.
\<close>

record policy =
  drop_default :: bool
  sort_keys :: bool
  dropna :: bool

datatype grouping_kind = PLAIN | GROUPED policy | ROWWISE

record tibble =
  frame_of :: frame
  grouping_kind :: grouping_kind
  group_vars :: "string list"

text \<open>The cell of a row under a column name; an absent column reads as missing.\<close>

definition cell :: "string list \<Rightarrow> val list \<Rightarrow> string \<Rightarrow> val" where
  "cell cols row c = (case map_of (zip cols row) c of None \<Rightarrow> None | Some v \<Rightarrow> v)"

definition row_key :: "string list \<Rightarrow> string list \<Rightarrow> val list \<Rightarrow> val list" where
  "row_key cols ks row = map (cell cols row) ks"

text \<open>
  Modelled from the spec: \<open>intersect\<close> (from \<open>datar2.base\<close>, not in the sources), the
  names of the first argument that occur in the second, in the order of the first.
\<close>

definition intersect :: "string list \<Rightarrow> string list \<Rightarrow> string list" where
  "intersect x y = [v \<leftarrow> x. v \<in> set y]"

text \<open>
  Modelled from the spec: the Group Index of section 4.1 (the tibble module is not in
  the sources). Rows are partitioned by their key, the groups in order of first
  occurrence, or in lexicographic order of the keys when \<open>sort\<close> is set; with \<open>dropna\<close>
  a row whose key has a missing value is in no group.
\<close>

type_synonym group_index = "(val list \<times> nat list) list"

fun add_to_group :: "val list \<Rightarrow> nat \<Rightarrow> group_index \<Rightarrow> group_index" where
  "add_to_group k i [] = [(k, [i])]"
| "add_to_group k i ((k', rs) # rest) =
     (if k = k' then (k', rs @ [i]) # rest else (k', rs) # add_to_group k i rest)"

definition build :: "frame \<Rightarrow> string list \<Rightarrow> bool \<Rightarrow> bool \<Rightarrow> group_index" where
  "build f gvars srt dna =
     (let keyed = zip (map (row_key (columns f) gvars) (rws f)) [0..<length (rws f)];
          kept = (if dna then [(k, i) \<leftarrow> keyed. None \<notin> set k] else keyed);
          idx = foldl (\<lambda>ix (k, i). add_to_group k i ix) [] kept
      in if srt then sort_key fst idx else idx)"

text \<open>
  Modelled from the spec: the constructors of section 4.2 (\<open>Tibble(out)\<close>,
  \<open>out.rowwise(gvars)\<close> and \<open>out.group_by(gvars, drop, sort, dropna)\<close> in the code).
  Grouping fails when a group variable is not a column.
\<close>

definition Tibble :: "frame \<Rightarrow> tibble" where
  "Tibble f = \<lparr>frame_of = f, grouping_kind = PLAIN, group_vars = []\<rparr>"

definition rowwise :: "tibble \<Rightarrow> string list \<Rightarrow> tibble" where
  "rowwise t gvars = \<lparr>frame_of = frame_of t, grouping_kind = ROWWISE, group_vars = gvars\<rparr>"

definition group_by :: "tibble \<Rightarrow> string list \<Rightarrow> bool \<Rightarrow> bool \<Rightarrow> bool \<Rightarrow> error + tibble" where
  "group_by t gvars drp srt dna =
     (if \<not> set gvars \<subseteq> set (columns (frame_of t))
      then Inl (InvalidGroupVars [v \<leftarrow> gvars. v \<notin> set (columns (frame_of t))])
      else Inr \<lparr>frame_of = frame_of t,
                grouping_kind = GROUPED \<lparr>drop_default = drp, sort_keys = srt, dropna = dna\<rparr>,
                group_vars = gvars\<rparr>)"

text \<open>The Group Index of a tibble is derived from its own frame, variables and policies.\<close>

definition group_index :: "tibble \<Rightarrow> group_index" where
  "group_index t =
     (case grouping_kind t of
        PLAIN \<Rightarrow> [([], [0..<length (rws (frame_of t))])]
      | ROWWISE \<Rightarrow> map (\<lambda>(row, i). (row_key (columns (frame_of t)) (group_vars t) row, [i]))
                     (zip (rws (frame_of t)) [0..<length (rws (frame_of t))])
      | GROUPED p \<Rightarrow> build (frame_of t) (group_vars t) (sort_keys p) (dropna p))"

text \<open>
  \<open>_reconstruct_tibble(orig, out)\<close>. Every caller passes the raw frame that the merge
  returned, so \<open>out\<close> is a frame and is wrapped into a plain tibble first. The source
  tests the class \<open>TibbleRowwise\<close> before \<open>TibbleGrouped\<close> (its superclass); the kinds
  here are disjoint.
\<close>

definition reconstruct_tibble :: "tibble \<Rightarrow> frame \<Rightarrow> error + tibble" where
  "reconstruct_tibble orig out =
     (let out' = Tibble out
      in case grouping_kind orig of
           ROWWISE \<Rightarrow> Inr (rowwise out' (intersect (group_vars orig) (columns out)))
         | GROUPED p \<Rightarrow>
             (let gvars = intersect (group_vars orig) (columns out)
              in if length gvars > 0
                 then group_by out' gvars (drop_default p) (sort_keys p) (dropna p)
                 else Inr out')
         | PLAIN \<Rightarrow> Inr out')"

section \<open>pandas' merge\<close>

text \<open>
  \<open>pandas.merge\<close> (pandas 1.x) for the arguments the joins pass. The model keeps two
  annotations the real result does not carry: every result row is tagged with the
  positions of the left and right rows it was made from (pandas' indexers; the
  \<open>indicator\<close> column is \<open>both\<close> exactly when both are present), and every result
  column with the side it comes from.
\<close>

datatype how = Inner | Left | Right | Outer | Cross

datatype origin = FromLeft | FromRight | SharedKey

type_synonym tag = "nat option \<times> nat option"

record merged =
  mcolumns :: "(origin \<times> string) list"
  mrows :: "(tag \<times> val list) list"

datatype merge_on = OnInfer | On "string list" | LeftRightOn "string list" "string list"

definition untag :: "merged \<Rightarrow> frame" where
  "untag m = \<lparr>columns = map snd (mcolumns m), rws = map snd (mrows m)\<rparr>"

fun interleave :: "string list \<Rightarrow> string list \<Rightarrow> (bool \<times> string) list" where
  "interleave (l # ls) (r # rs) = (False, r) # (True, l) # interleave ls rs"
| "interleave _ _ = []"

text \<open>
  The key columns of both sides. Without any specification the common columns are
  the keys; a key that is not a column is a \<open>KeyError\<close> (each right key is looked up
  before its left key); no key at all is an error unless the merge is a cross merge.
\<close>

definition check_keys ::
  "frame \<Rightarrow> frame \<Rightarrow> string list \<Rightarrow> string list \<Rightarrow> error + string list \<times> string list" where
  "check_keys l r lks rks =
     (if length lks \<noteq> length rks then Inl (ValueError ''len(right_on) must equal len(left_on)'')
      else if lks = [] then Inl (ValueError ''no keys to merge on'')
      else case [k \<leftarrow> interleave lks rks.
                   snd k \<notin> set (columns (if fst k then l else r))] of
             [] \<Rightarrow> Inr (lks, rks)
           | k # _ \<Rightarrow> Inl (KeyError (snd k)))"

definition merge_keys ::
  "frame \<Rightarrow> frame \<Rightarrow> how \<Rightarrow> merge_on \<Rightarrow> error + string list \<times> string list" where
  "merge_keys l r h on =
     (if h = Cross then
        (case on of
           OnInfer \<Rightarrow> Inr ([], [])
         | _ \<Rightarrow> Inl (MergeError ''Can not pass on, right_on, left_on for how=cross''))
      else case on of
             OnInfer \<Rightarrow>
               (let common = [c \<leftarrow> columns l. c \<in> set (columns r)]
                in if common = [] then Inl (MergeError ''No common columns to perform merge on'')
                   else Inr (common, common))
           | On ks \<Rightarrow> check_keys l r ks ks
           | LeftRightOn lks rks \<Rightarrow> check_keys l r lks rks)"

definition matches :: "val list list \<Rightarrow> val list \<Rightarrow> nat list" where
  "matches ks k = [i \<leftarrow> [0..<length ks]. ks ! i = k]"

text \<open>The distinct elements of a list in the order in which they first appear.\<close>

definition first_appearance :: "'a list \<Rightarrow> 'a list" where
  "first_appearance xs = rev (remdups (rev xs))"

text \<open>
  Which rows meet, as pandas 1.x computes it with \<open>sort=False\<close>. \<open>left\<close> follows the
  rows of the left side and \<open>right\<close> the rows of the right side, each row with its
  partners in their own order. \<open>inner\<close> and \<open>outer\<close> go key by key, the keys in the
  order in which they first appear (left rows first, then right rows), and within a
  key pair every left row with every right row. \<open>cross\<close> pairs every row with every
  row. A missing key value meets a missing key value.
\<close>

definition merge_pairs :: "how \<Rightarrow> val list list \<Rightarrow> val list list \<Rightarrow> tag list" where
  "merge_pairs h lk rk =
     (case h of
        Cross \<Rightarrow> concat (map (\<lambda>i. map (\<lambda>j. (Some i, Some j)) [0..<length rk]) [0..<length lk])
      | Inner \<Rightarrow>
          concat (map (\<lambda>k. concat (map (\<lambda>i. map (\<lambda>j. (Some i, Some j)) (matches rk k))
                                        (matches lk k)))
                      (first_appearance (lk @ rk)))
      | Left \<Rightarrow>
          concat (map (\<lambda>i. case matches rk (lk ! i) of
                               [] \<Rightarrow> [(Some i, None)]
                             | j # js \<Rightarrow> map (\<lambda>j. (Some i, Some j)) (j # js))
                      [0..<length lk])
      | Right \<Rightarrow>
          concat (map (\<lambda>j. case matches lk (rk ! j) of
                               [] \<Rightarrow> [(None, Some j)]
                             | i # is \<Rightarrow> map (\<lambda>i. (Some i, Some j)) (i # is))
                      [0..<length rk])
      | Outer \<Rightarrow>
          concat (map (\<lambda>k. if matches rk k = [] then map (\<lambda>i. (Some i, None)) (matches lk k)
                            else if matches lk k = [] then map (\<lambda>j. (None, Some j)) (matches rk k)
                            else concat (map (\<lambda>i. map (\<lambda>j. (Some i, Some j)) (matches rk k))
                                             (matches lk k)))
                      (first_appearance (lk @ rk))))"

text \<open>
  The columns of the result: the left columns, then the right columns. A key with
  the same name on both sides appears once (it is dropped from the right side, or
  from the left side when the left frame has no rows); other labels that occur on
  both sides get a suffix each.
\<close>

definition shared_keys :: "string list \<Rightarrow> string list \<Rightarrow> string list" where
  "shared_keys lks rks = [fst k. k \<leftarrow> zip lks rks, fst k = snd k]"

definition kept_cells :: "string list \<Rightarrow> string list \<Rightarrow> val list \<Rightarrow> val list" where
  "kept_cells cols dropped row = [snd cv. cv \<leftarrow> zip cols row, fst cv \<notin> set dropped]"

definition side_cells ::
  "string list \<Rightarrow> string list \<Rightarrow> string list \<Rightarrow> val list option
   \<Rightarrow> string list \<Rightarrow> val list option \<Rightarrow> val list" where
  "side_cells cols dropped shared row other_cols other_row =
     (case row of
        Some r \<Rightarrow> kept_cells cols dropped r
      | None \<Rightarrow>
          map (\<lambda>c. if c \<in> set shared
                    then (case other_row of None \<Rightarrow> None | Some r \<Rightarrow> cell other_cols r c)
                    else None)
              [c \<leftarrow> cols. c \<notin> set dropped])"

definition pd_merge ::
  "frame \<Rightarrow> frame \<Rightarrow> how \<Rightarrow> merge_on \<Rightarrow> string \<times> string \<Rightarrow> string option \<Rightarrow> error + merged" where
  "pd_merge l r h on suffixes' indicator =
     (case merge_keys l r h on of
        Inl e \<Rightarrow> Inl e
      | Inr (lks, rks) \<Rightarrow>
          (let shared = shared_keys lks rks;
               left_drop = (if length (rws l) > 0 then [] else shared);
               right_drop = (if length (rws l) > 0 then shared else []);
               lcols = [c \<leftarrow> columns l. c \<notin> set left_drop];
               rcols = [c \<leftarrow> columns r. c \<notin> set right_drop];
               overlap = [c \<leftarrow> lcols. c \<in> set rcols];
               name = (\<lambda>sfx c. if c \<in> set overlap then c @ sfx else c);
               side = (\<lambda>sd c. if c \<in> set shared then SharedKey else sd)
           in if (case indicator of
                    None \<Rightarrow> False
                  | Some nm \<Rightarrow> nm \<in> set (columns l) \<union> set (columns r))
              then Inl (ValueError ''Cannot use name of an existing column for indicator column'')
              else if overlap \<noteq> [] \<and> fst suffixes' = [] \<and> snd suffixes' = []
              then Inl (ValueError ''columns overlap but no suffix specified'')
              else Inr \<lparr>mcolumns = map (\<lambda>c. (side FromLeft c, name (fst suffixes') c)) lcols
                                     @ map (\<lambda>c. (side FromRight c, name (snd suffixes') c)) rcols,
                        mrows = map (\<lambda>t. (t,
                                  side_cells (columns l) left_drop shared
                                    (map_option (\<lambda>i. rws l ! i) (fst t))
                                    (columns r) (map_option (\<lambda>j. rws r ! j) (snd t))
                                  @ side_cells (columns r) right_drop shared
                                    (map_option (\<lambda>j. rws r ! j) (snd t))
                                    (columns l) (map_option (\<lambda>i. rws l ! i) (fst t))))
                                  (merge_pairs h (map (row_key (columns l) lks) (rws l))
                                     (map (row_key (columns r) rks) (rws r)))\<rparr>))"

text \<open>\<open>DataFrame.drop(columns=...)\<close>, \<open>rename(columns=...)\<close>, \<open>drop_duplicates(subset)\<close> and \<open>.loc[mask, labels]\<close>.\<close>

definition drop_columns :: "string list \<Rightarrow> merged \<Rightarrow> error + merged" where
  "drop_columns labels m =
     (case [n \<leftarrow> labels. n \<notin> snd ` set (mcolumns m)] of
        n # _ \<Rightarrow> Inl (KeyError n)
      | [] \<Rightarrow>
          Inr \<lparr>mcolumns = [c \<leftarrow> mcolumns m. snd c \<notin> set labels],
               mrows = map (\<lambda>tr. (fst tr,
                            [snd cv. cv \<leftarrow> zip (mcolumns m) (snd tr), snd (fst cv) \<notin> set labels]))
                           (mrows m)\<rparr>)"

definition rename_columns :: "string list \<Rightarrow> string \<Rightarrow> frame \<Rightarrow> frame" where
  "rename_columns labels sfx f =
     f\<lparr>columns := map (\<lambda>c. if c \<in> set labels then c @ sfx else c) (columns f)\<rparr>"

fun first_of_each :: "val list list \<Rightarrow> (val list \<times> val list) list \<Rightarrow> val list list" where
  "first_of_each seen [] = []"
| "first_of_each seen ((k, row) # rest) =
     (if k \<in> set seen then first_of_each seen rest else row # first_of_each (k # seen) rest)"

definition drop_duplicates :: "frame \<Rightarrow> string list \<Rightarrow> error + frame" where
  "drop_duplicates f subset' =
     (case [n \<leftarrow> subset'. n \<notin> set (columns f)] of
        n # _ \<Rightarrow> Inl (KeyError n)
      | [] \<Rightarrow> Inr (f\<lparr>rws := first_of_each []
                              (map (\<lambda>row. (row_key (columns f) subset' row, row)) (rws f))\<rparr>))"

definition loc :: "(tag \<Rightarrow> bool) \<Rightarrow> string list \<Rightarrow> merged \<Rightarrow> error + frame" where
  "loc keep_row labels m =
     (case [n \<leftarrow> labels. n \<notin> snd ` set (mcolumns m)] of
        n # _ \<Rightarrow> Inl (KeyError n)
      | [] \<Rightarrow>
          Inr \<lparr>columns = concat (map (\<lambda>n. [c \<leftarrow> map snd (mcolumns m). c = n]) labels),
               rws = map (\<lambda>tr. concat (map (\<lambda>n. [snd cv. cv \<leftarrow> zip (mcolumns m) (snd tr),
                                                            snd (fst cv) = n]) labels))
                         [tr \<leftarrow> mrows m. keep_row (fst tr)]\<rparr>)"

definition both :: "tag \<Rightarrow> bool" where
  "both t \<longleftrightarrow> fst t \<noteq> None \<and> snd t \<noteq> None"

section \<open>The joins (datar2/dplyr/join.py)\<close>

datatype by_spec = ByNone | ByList "string list" | ByDict "(string \<times> string) list"

text \<open>\<open>by is not None and not by\<close>: an empty list or an empty mapping.\<close>

fun cross_by :: "by_spec \<Rightarrow> bool" where
  "cross_by ByNone = False"
| "cross_by (ByList ks) = (ks = [])"
| "cross_by (ByDict d) = (d = [])"

text \<open>
  The frame \<open>ret\<close> that \<open>_join\<close> computes before it reconstructs the grouping. The
  cells are numeric, so the branch that recovers categorical key columns never runs.
  \<open>copy\<close> is handed on to pandas and changes no value.
\<close>

definition join_ret ::
  "frame \<Rightarrow> frame \<Rightarrow> how \<Rightarrow> by_spec \<Rightarrow> bool \<Rightarrow> string \<times> string \<Rightarrow> bool \<Rightarrow> error + merged" where
  "join_ret newx y h by copy' suffix' keep =
     (if cross_by by then pd_merge newx y Cross OnInfer suffix' None
      else case by of
             ByDict d \<Rightarrow>
               (case pd_merge newx y h (LeftRightOn (map fst d) (map snd d)) suffix' None of
                  Inl e \<Rightarrow> Inl e
                | Inr ret \<Rightarrow> if \<not> keep then drop_columns (map snd d) ret else Inr ret)
           | _ \<Rightarrow>
               (let by' = (case by of ByList ks \<Rightarrow> ks
                                     | _ \<Rightarrow> intersect (columns newx) (columns y))
                in if keep then
                     pd_merge (rename_columns by' (fst suffix') newx)
                       (rename_columns by' (snd suffix') y) h
                       (LeftRightOn (map (\<lambda>c. c @ fst suffix') by') (map (\<lambda>c. c @ snd suffix') by'))
                       suffix' None
                   else pd_merge newx y h (On by') suffix' None))"

definition join ::
  "tibble \<Rightarrow> frame \<Rightarrow> how \<Rightarrow> by_spec \<Rightarrow> bool \<Rightarrow> string \<times> string \<Rightarrow> bool \<Rightarrow> error + tibble" where
  "join x y h by copy' suffix' keep =
     (case join_ret (frame_of x) y h by copy' suffix' keep of
        Inl e \<Rightarrow> Inl e
      | Inr ret \<Rightarrow> reconstruct_tibble x (untag ret))"

definition inner_join :: "tibble \<Rightarrow> frame \<Rightarrow> by_spec \<Rightarrow> bool \<Rightarrow> string \<times> string \<Rightarrow> bool \<Rightarrow> error + tibble" where
  "inner_join x y by copy' suffix' keep = join x y Inner by copy' suffix' keep"

definition left_join :: "tibble \<Rightarrow> frame \<Rightarrow> by_spec \<Rightarrow> bool \<Rightarrow> string \<times> string \<Rightarrow> bool \<Rightarrow> error + tibble" where
  "left_join x y by copy' suffix' keep = join x y Left by copy' suffix' keep"

definition right_join :: "tibble \<Rightarrow> frame \<Rightarrow> by_spec \<Rightarrow> bool \<Rightarrow> string \<times> string \<Rightarrow> bool \<Rightarrow> error + tibble" where
  "right_join x y by copy' suffix' keep = join x y Right by copy' suffix' keep"

definition full_join :: "tibble \<Rightarrow> frame \<Rightarrow> by_spec \<Rightarrow> bool \<Rightarrow> string \<times> string \<Rightarrow> bool \<Rightarrow> error + tibble" where
  "full_join x y by copy' suffix' keep = join x y Outer by copy' suffix' keep"

text \<open>\<open>_merge_on\<close>, and the \<open>right_on\<close> that \<open>semi_join\<close> removes duplicates by.\<close>

fun merge_on_of :: "by_spec \<Rightarrow> merge_on" where
  "merge_on_of ByNone = OnInfer"
| "merge_on_of (ByDict d) = LeftRightOn (map fst d) (map snd d)"
| "merge_on_of (ByList ks) = On ks"

fun semi_right_on :: "by_spec \<Rightarrow> frame \<Rightarrow> string list" where
  "semi_right_on (ByDict d) y = map snd d"
| "semi_right_on (ByList ks) y = ks"
| "semi_right_on ByNone y = columns y"

definition semi_join :: "tibble \<Rightarrow> frame \<Rightarrow> by_spec \<Rightarrow> bool \<Rightarrow> error + tibble" where
  "semi_join x y by copy' =
     (case drop_duplicates y (semi_right_on by y) of
        Inl e \<Rightarrow> Inl e
      | Inr y' \<Rightarrow>
          (case pd_merge (frame_of x) y' Left (merge_on_of by) ([], ''_y'') (Some ''__merge__'') of
             Inl e \<Rightarrow> Inl e
           | Inr ret \<Rightarrow>
               (case loc both (columns (frame_of x)) ret of
                  Inl e \<Rightarrow> Inl e
                | Inr ret' \<Rightarrow> reconstruct_tibble x ret')))"

definition anti_join :: "tibble \<Rightarrow> frame \<Rightarrow> by_spec \<Rightarrow> bool \<Rightarrow> error + tibble" where
  "anti_join x y by copy' =
     (case pd_merge (frame_of x) y Left (merge_on_of by) ([], ''_y'') (Some ''_merge'') of
        Inl e \<Rightarrow> Inl e
      | Inr ret \<Rightarrow>
          (case loc (\<lambda>t. \<not> both t) (columns (frame_of x)) ret of
             Inl e \<Rightarrow> Inl e
           | Inr ret' \<Rightarrow> reconstruct_tibble x ret'))"

section \<open>The claims' own formulations\<close>

text \<open>
  The min-method rank of a value among the present values, and \<open>percent_rank\<close> as the
  specification words it: \<open>(rank - min_rank) / (max_rank - min_rank)\<close> on those ranks,
  a missing input giving a missing output.
\<close>

definition min_rank :: "rat list \<Rightarrow> rat \<Rightarrow> nat" where
  "min_rank vs v = 1 + length [u \<leftarrow> vs. u < v]"





text \<open>
  The cross join of two frames: every row of the first paired with every row of the
  second (a row contributes the cells that have a column).
\<close>

definition cross_rows :: "frame \<Rightarrow> frame \<Rightarrow> val list list" where
  "cross_rows x y =
     concat (map (\<lambda>xr. map (\<lambda>yr. take (length (columns x)) xr @ take (length (columns y)) yr)
                          (rws y)) (rws x))"


section \<open>Properties of the rank family\<close>

subsection \<open>Rows of a group and their running count\<close>

lemma group_rows_snoc:
  "group_rows (g @ [p]) c = group_rows g c @ (if fst p = c then [length g] else [])"
proof -
  have "[i \<leftarrow> [0..<length g]. fst ((g @ [p]) ! i) = c] = [i \<leftarrow> [0..<length g]. fst (g ! i) = c]"
    by (rule filter_cong) (auto simp: nth_append)
  then show ?thesis by (simp add: group_rows_def)
qed

lemma length_group_rows: "length (group_rows g c) = count_list (map fst g) c"
  by (induction g rule: rev_induct) (auto simp: group_rows_snoc, simp add: group_rows_def)

lemma group_rows_bound: "i \<in> set (group_rows g c) \<Longrightarrow> i < length g \<and> fst (g ! i) = c"
  by (auto simp: group_rows_def)

lemma cumcount_nth:
  "i < length g \<Longrightarrow> cumcount g ! i = count_list (map fst (take i g)) (fst (g ! i))"
  by (simp add: cumcount_def)

lemma length_cumcount: "length (cumcount g) = length g"
  by (simp add: cumcount_def)

lemma cumcount_group_rows:
  "map (\<lambda>i. cumcount g ! i) (group_rows g c) = [0..<length (group_rows g c)]"
proof (induction g rule: rev_induct)
  case Nil
  show ?case by (simp add: group_rows_def)
next
  case (snoc p g)
  have old: "map (\<lambda>i. cumcount (g @ [p]) ! i) (group_rows g c)
             = map (\<lambda>i. cumcount g ! i) (group_rows g c)"
    by (rule map_cong) (auto dest!: group_rows_bound simp: cumcount_nth nth_append)
  have new: "cumcount (g @ [p]) ! length g = count_list (map fst g) (fst p)"
    by (simp add: cumcount_nth)
  show ?case
    using snoc.IH old new by (simp add: group_rows_snoc length_group_rows)
qed

lemma one_based_nth: "i < length cs \<Longrightarrow> one_based cs ! i = Some (of_nat (cs ! i + 1))"
  by (simp add: one_based_def)

lemma row_number_group_rows:
  "map (\<lambda>i. one_based (cumcount g) ! i) (group_rows g c) = range1 (length (group_rows g c))"
proof -
  have "map (\<lambda>i. one_based (cumcount g) ! i) (group_rows g c)
        = map (\<lambda>i. Some (of_nat (cumcount g ! i + 1))) (group_rows g c)"
    by (rule map_cong) (auto dest!: group_rows_bound simp: one_based_nth length_cumcount)
  also have "\<dots> = map (\<lambda>k. Some (of_nat (k + 1))) (map (\<lambda>i. cumcount g ! i) (group_rows g c))"
    by (simp add: comp_def)
  also have "\<dots> = map (\<lambda>k. Some (of_nat (k + 1))) [0..<length (group_rows g c)]"
    by (simp only: cumcount_group_rows)
  also have "\<dots> = range1 (length (group_rows g c))"
    unfolding range1_def
    by (simp add: map_Suc_upt[symmetric] del: upt_Suc of_nat_Suc)
  finally show ?thesis .
qed

subsection \<open>row\_number\<close>

text \<open>
  C7. On an ungrouped table with \<open>n\<close> rows \<open>row_number\<close> is exactly \<open>[1, 2, ..., n]\<close>.
  On a grouped column the numbering restarts in every group: read at the rows of any
  group \<open>c\<close>, in row order, the result is \<open>[1, 2, ..., size of the group]\<close>.
\<close>

theorem row_number_table_and_groups:
  "row_number (DataFrame f) = map (\<lambda>i. Some (of_nat i)) [1..<length (rws f) + 1]
   \<and> map (\<lambda>i. row_number (Column (GroupBy g)) ! i) (group_rows g c)
       = map (\<lambda>k. Some (of_nat k)) [1..<length (group_rows g c) + 1]"
  using row_number_group_rows [of g c] by (simp add: range1_def)

subsection \<open>percent\_rank\<close>

lemma non_missing_Cons [simp]:
  "non_missing (None # x) = non_missing x" "non_missing (Some v # x) = v # non_missing x"
  "non_missing [] = []"
  by (simp_all add: non_missing_def)



lemma map_nth_fun: "map (\<lambda>i. f (xs ! i)) [0..<length xs] = map f xs"
  by (rule nth_equalityI) auto

























lemma zero_denominator_zero_numerator:
  assumes "v \<in> set vs" and "Max (set (map (min_rank vs) vs)) = Min (set (map (min_rank vs) vs))"
  shows "min_rank vs v = Min (set (map (min_rank vs) vs))"
proof -
  have "min_rank vs v \<in> set (map (min_rank vs) vs)" using assms(1) by simp
  then have "Min (set (map (min_rank vs) vs)) \<le> min_rank vs v"
    and "min_rank vs v \<le> Max (set (map (min_rank vs) vs))"
    by (simp_all del: set_map)
  with assms(2) show ?thesis by simp
qed




subsection \<open>ntile\<close>




lemma length_filter_mono:
  "(\<And>e. P e \<Longrightarrow> Q e) \<Longrightarrow> length (filter P xs) \<le> length (filter Q xs)"
  by (induction xs) auto

lemma update_first_edge:
  "(map f [0..<Suc k])[0 := a] = map (\<lambda>i. if i = 0 then a else f i) [0..<Suc k]"
  by (rule nth_equalityI) (auto simp del: upt_Suc simp: nth_list_update)

lemma bin_edges_map:
  "bin_edges mn mx k =
     (if mn = mx then
        map (\<lambda>i. (mn - (if mn \<noteq> 0 then (1 / 1000) * \<bar>mn\<bar> else 1 / 1000)) + of_nat i *
                 (((mx + (if mx \<noteq> 0 then (1 / 1000) * \<bar>mx\<bar> else 1 / 1000))
                    - (mn - (if mn \<noteq> 0 then (1 / 1000) * \<bar>mn\<bar> else 1 / 1000))) / of_nat k)) [0..<Suc k]
      else map (\<lambda>i. if i = 0 then mn - (mx - mn) * (1 / 1000) else mn + of_nat i * ((mx - mn) / of_nat k)) [0..<Suc k])"
  unfolding bin_edges_def linspace_def Let_def
  by (simp add: update_first_edge del: upt_Suc)

lemma length_bin_edges: "length (bin_edges mn mx k) = Suc k"
  by (simp add: bin_edges_map del: upt_Suc)





lemma cut_label_None [simp]: "cut_label bins None = None"
  by (simp add: cut_label_def)








subsection \<open>Empty input\<close>

text \<open>
  C8. Every rank-family kernel (\<open>row_number\<close>, \<open>ntile\<close>, \<open>percent_rank\<close>, \<open>cume_dist\<close>)
  returns the empty output on an empty input, whichever kind of input it is and
  whatever the other arguments are; none raises. (\<open>ntile\<close> is the one kernel that can
  raise at all, through \<open>pandas.cut\<close>, which rejects an empty array; the kernel answers
  before calling it.)
\<close>

theorem rank_family_empty_input:
  "row_number (Column (Sequence [])) = []
   \<and> row_number (Column (Series [])) = []
   \<and> row_number (Column (GroupBy [])) = []
   \<and> row_number (DataFrame \<lparr>columns = cs, rws = []\<rparr>) = []
   \<and> row_number (TibbleGrouped cs []) = []
   \<and> ntile (Sequence []) n = Inr [] \<and> ntile (Series []) n = Inr []
   \<and> ntile (GroupBy []) n = Inr []
   \<and> percent_rank (Sequence []) na = [] \<and> percent_rank (Series []) na = []
   \<and> percent_rank (GroupBy []) na = []
   \<and> cume_dist (Sequence []) na = [] \<and> cume_dist (Series []) na = []
   \<and> cume_dist (GroupBy []) na = []"
  by (simp add: series_rank_def one_based_def cumcount_def range1_def ntile_ndarray_def
      transform_raising_def percent_rank_NDFrame_def percent_rank_GroupBy_def transform_def
      cume_dist_NDFrame_def cume_dist_GroupBy_def)

section \<open>Copying a grouped frame\<close>

lemma copy_takes_plain_branch:
  "''_grouepd'' \<notin> fst ` set (attrs self) \<Longrightarrow> copy h self deep = Inr (super_copy h self deep)"
  by (simp add: copy_def)

lemma from_groupby_keys:
  "from_groupby a gv = Inr g \<Longrightarrow>
   fst ` set (attrs g) = {''_grouped'', ''_group_vars'', ''_html_footer'', ''_str_footer''}"
  by (cases a) (auto simp: Let_def split: sum.splits)

text \<open>
  C3 does not hold of the code. Take the frame at address 0 grouped by \<open>a\<close> into two
  groups and wrap it with \<open>from_groupby\<close>. Its deep copy lives at the new address 1,
  yet its \<open>_grouped\<close> attribute is the very group index of the original, over the
  frame at address 0: the index is reused, not derived again, and it does not look
  at the copy's own data. (The shallow copy keeps index and data, as claimed.)
\<close>

theorem copy_deep_reuses_group_index:
  "from_groupby (OfGroupBy \<lparr>obj = 0, grouper = \<lparr>names = [Some ''a''], ngroups = 2\<rparr>,
                            observed = False, sort' = True\<rparr>) None
     = Inr \<lparr>mgr = 0,
            attrs = [(''_grouped'', Grouped \<lparr>obj = 0, grouper = \<lparr>names = [Some ''a''], ngroups = 2\<rparr>,
                                           observed = False, sort' = True\<rparr>),
                     (''_group_vars'', GroupVars [''a'']),
                     (''_html_footer'', HtmlFooter [''a''] 2),
                     (''_str_footer'', StrFooter [''a''] 2)]\<rparr>
   \<and> map_sum id fst
        (copy \<lparr>frame_at = (\<lambda>a. \<lparr>columns = [''a''], rws = [[Some 1], [Some 2]]\<rparr>), fresh = 1\<rparr>
           \<lparr>mgr = 0,
            attrs = [(''_grouped'', Grouped \<lparr>obj = 0, grouper = \<lparr>names = [Some ''a''], ngroups = 2\<rparr>,
                                           observed = False, sort' = True\<rparr>),
                     (''_group_vars'', GroupVars [''a'']),
                     (''_html_footer'', HtmlFooter [''a''] 2),
                     (''_str_footer'', StrFooter [''a''] 2)]\<rparr>
           True)
     = Inr \<lparr>mgr = 1,
            attrs = [(''_grouped'', Grouped \<lparr>obj = 0, grouper = \<lparr>names = [Some ''a''], ngroups = 2\<rparr>,
                                           observed = False, sort' = True\<rparr>),
                     (''_group_vars'', GroupVars [''a'']),
                     (''_html_footer'', HtmlFooter [''a''] 2),
                     (''_str_footer'', StrFooter [''a''] 2)]\<rparr>"
  by (simp add: copy_def super_copy_def alloc_def Let_def)

section \<open>Reconstruction\<close>

lemma set_intersect: "set (intersect x y) = set x \<inter> set y"
  by (auto simp: intersect_def)

text \<open>
  C1. Reconstructing a result frame \<open>out\<close> from a source tibble never fails, and: a
  ROWWISE source gives a ROWWISE result whose group variables are the source's that are
  columns of \<open>out\<close>, in the source's order; a GROUPED source gives a GROUPED result
  over that intersection when it is not empty, with the source's policies, its Group
  Index being built from \<open>out\<close> itself under the source's \<open>sort\<close> and \<open>dropna\<close>, and a
  PLAIN result when the intersection is empty; a PLAIN source gives a PLAIN result.
\<close>

theorem reconstruct_tibble_rule:
  "(grouping_kind orig = ROWWISE \<longrightarrow>
      reconstruct_tibble orig out
        = Inr \<lparr>frame_of = out, grouping_kind = ROWWISE,
               group_vars = intersect (group_vars orig) (columns out)\<rparr>)
   \<and> (grouping_kind orig = GROUPED p \<and> intersect (group_vars orig) (columns out) \<noteq> [] \<longrightarrow>
        reconstruct_tibble orig out
          = Inr \<lparr>frame_of = out, grouping_kind = GROUPED p,
                 group_vars = intersect (group_vars orig) (columns out)\<rparr>
        \<and> group_index \<lparr>frame_of = out, grouping_kind = GROUPED p,
                        group_vars = intersect (group_vars orig) (columns out)\<rparr>
            = build out (intersect (group_vars orig) (columns out)) (sort_keys p) (dropna p))
   \<and> (grouping_kind orig = GROUPED p \<and> intersect (group_vars orig) (columns out) = [] \<longrightarrow>
        reconstruct_tibble orig out
          = Inr \<lparr>frame_of = out, grouping_kind = PLAIN, group_vars = []\<rparr>)
   \<and> (grouping_kind orig = PLAIN \<longrightarrow>
        reconstruct_tibble orig out
          = Inr \<lparr>frame_of = out, grouping_kind = PLAIN, group_vars = []\<rparr>)
   \<and> set (intersect (group_vars orig) (columns out)) = set (group_vars orig) \<inter> set (columns out)
   \<and> intersect (group_vars orig) (columns out)
       = [v \<leftarrow> group_vars orig. v \<in> set (columns out)]"
  by (auto simp: reconstruct_tibble_def Tibble_def rowwise_def group_by_def group_index_def
      set_intersect Let_def, simp_all add: intersect_def)

theorem reconstruct_tibble_rule_witness:
  "reconstruct_tibble
     \<lparr>frame_of = \<lparr>columns = [''g'', ''h'', ''v''], rws = [[Some 1, Some 2, Some 3]]\<rparr>,
      grouping_kind = ROWWISE, group_vars = [''h'', ''g'']\<rparr>
     \<lparr>columns = [''g'', ''v'', ''w''], rws = [[Some 1, Some 3, None]]\<rparr>
   = Inr \<lparr>frame_of = \<lparr>columns = [''g'', ''v'', ''w''], rws = [[Some 1, Some 3, None]]\<rparr>,
          grouping_kind = ROWWISE, group_vars = [''g'']\<rparr>
   \<and> reconstruct_tibble
       \<lparr>frame_of = \<lparr>columns = [''g'', ''h'', ''v''], rws = [[Some 1, Some 2, Some 3]]\<rparr>,
        grouping_kind = GROUPED \<lparr>drop_default = True, sort_keys = True, dropna = False\<rparr>,
        group_vars = [''h'', ''g'']\<rparr>
       \<lparr>columns = [''g'', ''v'', ''w''], rws = [[Some 1, Some 3, None]]\<rparr>
     = Inr \<lparr>frame_of = \<lparr>columns = [''g'', ''v'', ''w''], rws = [[Some 1, Some 3, None]]\<rparr>,
            grouping_kind = GROUPED \<lparr>drop_default = True, sort_keys = True, dropna = False\<rparr>,
            group_vars = [''g'']\<rparr>
   \<and> reconstruct_tibble
       \<lparr>frame_of = \<lparr>columns = [''g'', ''h'', ''v''], rws = [[Some 1, Some 2, Some 3]]\<rparr>,
        grouping_kind = GROUPED \<lparr>drop_default = True, sort_keys = True, dropna = False\<rparr>,
        group_vars = [''h'', ''g'']\<rparr>
       \<lparr>columns = [''v'', ''w''], rws = [[Some 3, None]]\<rparr>
     = Inr \<lparr>frame_of = \<lparr>columns = [''v'', ''w''], rws = [[Some 3, None]]\<rparr>,
            grouping_kind = PLAIN, group_vars = []\<rparr>
   \<and> reconstruct_tibble
       \<lparr>frame_of = \<lparr>columns = [''g'', ''h'', ''v''], rws = [[Some 1, Some 2, Some 3]]\<rparr>,
        grouping_kind = PLAIN, group_vars = []\<rparr>
       \<lparr>columns = [''g'', ''v'', ''w''], rws = [[Some 1, Some 3, None]]\<rparr>
     = Inr \<lparr>frame_of = \<lparr>columns = [''g'', ''v'', ''w''], rws = [[Some 1, Some 3, None]]\<rparr>,
            grouping_kind = PLAIN, group_vars = []\<rparr>"
  using
    reconstruct_tibble_rule
      [where orig = "\<lparr>frame_of = \<lparr>columns = [''g'', ''h'', ''v''], rws = [[Some 1, Some 2, Some 3]]\<rparr>,
            grouping_kind = ROWWISE, group_vars = [''h'', ''g'']\<rparr>"
         and out = "\<lparr>columns = [''g'', ''v'', ''w''], rws = [[Some 1, Some 3, None]]\<rparr>"]
    reconstruct_tibble_rule
      [where orig = "\<lparr>frame_of = \<lparr>columns = [''g'', ''h'', ''v''], rws = [[Some 1, Some 2, Some 3]]\<rparr>,
            grouping_kind = GROUPED \<lparr>drop_default = True, sort_keys = True, dropna = False\<rparr>,
            group_vars = [''h'', ''g'']\<rparr>"
         and p = "\<lparr>drop_default = True, sort_keys = True, dropna = False\<rparr>"
         and out = "\<lparr>columns = [''g'', ''v'', ''w''], rws = [[Some 1, Some 3, None]]\<rparr>"]
    reconstruct_tibble_rule
      [where orig = "\<lparr>frame_of = \<lparr>columns = [''g'', ''h'', ''v''], rws = [[Some 1, Some 2, Some 3]]\<rparr>,
            grouping_kind = GROUPED \<lparr>drop_default = True, sort_keys = True, dropna = False\<rparr>,
            group_vars = [''h'', ''g'']\<rparr>"
         and p = "\<lparr>drop_default = True, sort_keys = True, dropna = False\<rparr>"
         and out = "\<lparr>columns = [''v'', ''w''], rws = [[Some 3, None]]\<rparr>"]
    reconstruct_tibble_rule
      [where orig = "\<lparr>frame_of = \<lparr>columns = [''g'', ''h'', ''v''], rws = [[Some 1, Some 2, Some 3]]\<rparr>,
            grouping_kind = PLAIN, group_vars = []\<rparr>"
         and out = "\<lparr>columns = [''g'', ''v'', ''w''], rws = [[Some 1, Some 3, None]]\<rparr>"]
  by (simp add: intersect_def)

section \<open>Properties of the joins\<close>

lemma reconstruct_tibble_total:
  "\<exists>t. reconstruct_tibble orig out = Inr t \<and> frame_of t = out"
  by (auto simp: reconstruct_tibble_def Tibble_def rowwise_def group_by_def intersect_def Let_def
      split: grouping_kind.splits)

lemma kept_cells_nothing: "kept_cells cols [] row = take (length cols) row"
  by (simp add: kept_cells_def map_snd_zip_take min_def)

lemma length_cross_rows: "length (cross_rows x y) = length (rws x) * length (rws y)"
  by (simp add: cross_rows_def length_concat comp_def sum_list_triv)

lemma pd_merge_cross:
  "pd_merge l r Cross OnInfer sfx None = Inr m \<Longrightarrow> map snd (mrows m) = cross_rows l r"
proof -
  assume a: "pd_merge l r Cross OnInfer sfx None = Inr m"
  have "map snd (mrows m)
        = concat (map (\<lambda>i. map (\<lambda>j. take (length (columns l)) (rws l ! i)
                                       @ take (length (columns r)) (rws r ! j))
                             [0..<length (rws r)]) [0..<length (rws l)])"
    using a
    by (auto simp: pd_merge_def merge_keys_def shared_keys_def Let_def merge_pairs_def
        side_cells_def kept_cells_nothing map_concat comp_def split: if_splits)
  also have "\<dots> = cross_rows l r"
    unfolding cross_rows_def
    by (simp add: map_nth_fun [where f = "\<lambda>yr. _ @ take _ yr"]
        map_nth_fun [where xs = "rws l" and f = "\<lambda>xr. map (\<lambda>yr. take (length (columns l)) xr @ take (length (columns r)) yr) (rws r)"])
  finally show ?thesis .
qed

lemma pd_merge_cross_total:
  "\<not> ([c \<leftarrow> columns l. c \<in> set (columns r)] \<noteq> [] \<and> fst sfx = [] \<and> snd sfx = [])
   \<Longrightarrow> \<exists>m. pd_merge l r Cross OnInfer sfx None = Inr m"
  by (auto simp: pd_merge_def merge_keys_def shared_keys_def Let_def)

lemma join_cross:
  "cross_by by \<Longrightarrow> join x y h by cp sfx keep = join x y Cross by cp sfx keep"
  by (simp add: join_def join_ret_def)

lemma join_infer:
  assumes "h \<noteq> Cross"
  shows "join x y h ByNone cp sfx keep
         = (if intersect (columns (frame_of x)) (columns y) = []
            then Inl (ValueError ''no keys to merge on'')
            else join x y h (ByList (intersect (columns (frame_of x)) (columns y))) cp sfx keep)"
  using assms
  by (simp add: join_def join_ret_def pd_merge_def merge_keys_def check_keys_def Let_def)

text \<open>
  C10. When \<open>by\<close> is an empty list or an empty mapping, each of \<open>inner_join\<close>,
  \<open>left_join\<close>, \<open>right_join\<close> and \<open>full_join\<close> is the cross join, whatever its own
  kind: if it returns, the rows are every row of \<open>x\<close> paired with every row of \<open>y\<close>,
  \<open>|x| * |y|\<close> of them, and it does return unless columns overlap and both suffixes
  are empty. Keys are inferred only for \<open>by = None\<close>: that call is the call with the
  common columns as an explicit list, and an error when there is no common column.
\<close>

theorem empty_by_is_cross_join:
  "(cross_by by \<longrightarrow>
      inner_join x y by cp sfx keep = join x y Cross by cp sfx keep
      \<and> left_join x y by cp sfx keep = join x y Cross by cp sfx keep
      \<and> right_join x y by cp sfx keep = join x y Cross by cp sfx keep
      \<and> full_join x y by cp sfx keep = join x y Cross by cp sfx keep
      \<and> (\<forall>t. join x y Cross by cp sfx keep = Inr t \<longrightarrow>
             rws (frame_of t) = cross_rows (frame_of x) y
             \<and> length (rws (frame_of t)) = length (rws (frame_of x)) * length (rws y))
      \<and> (\<not> ([c \<leftarrow> columns (frame_of x). c \<in> set (columns y)] \<noteq> [] \<and> fst sfx = [] \<and> snd sfx = [])
           \<longrightarrow> (\<exists>t. join x y Cross by cp sfx keep = Inr t)))
   \<and> (h \<noteq> Cross \<longrightarrow>
        join x y h ByNone cp sfx keep
          = (if intersect (columns (frame_of x)) (columns y) = []
             then Inl (ValueError ''no keys to merge on'')
             else join x y h (ByList (intersect (columns (frame_of x)) (columns y))) cp sfx keep))"
proof (intro conjI impI allI)
  fix t assume cb: "cross_by by" and t: "join x y Cross by cp sfx keep = Inr t"
  from t cb obtain m where m: "pd_merge (frame_of x) y Cross OnInfer sfx None = Inr m"
    and r: "reconstruct_tibble x (untag m) = Inr t"
    by (auto simp: join_def join_ret_def split: sum.splits)
  from r have "frame_of t = untag m"
    using reconstruct_tibble_total [of x "untag m"] by auto
  then show rows: "rws (frame_of t) = cross_rows (frame_of x) y"
    using pd_merge_cross [OF m] by (simp add: untag_def)
  show "length (rws (frame_of t)) = length (rws (frame_of x)) * length (rws y)"
    by (simp add: rows length_cross_rows)
next
  assume cb: "cross_by by"
    and ok: "\<not> ([c \<leftarrow> columns (frame_of x). c \<in> set (columns y)] \<noteq> [] \<and> fst sfx = [] \<and> snd sfx = [])"
  from pd_merge_cross_total [OF ok] obtain m
    where "pd_merge (frame_of x) y Cross OnInfer sfx None = Inr m" by blast
  then show "\<exists>t. join x y Cross by cp sfx keep = Inr t"
    using cb reconstruct_tibble_total [of x "untag m"] by (auto simp: join_def join_ret_def)
next
  assume "h \<noteq> Cross"
  then show "join x y h ByNone cp sfx keep
          = (if intersect (columns (frame_of x)) (columns y) = []
             then Inl (ValueError ''no keys to merge on'')
             else join x y h (ByList (intersect (columns (frame_of x)) (columns y))) cp sfx keep)"
    by (rule join_infer)
qed (simp_all add: inner_join_def left_join_def right_join_def full_join_def join_def join_ret_def)



theorem empty_by_is_cross_join_witness:
  "cross_by (ByList [])
   \<and> Right \<noteq> Cross
   \<and> right_join (Tibble \<lparr>columns = [''a'', ''b''], rws = [[Some 1, Some 10], [Some 2, Some 20]]\<rparr>)
       \<lparr>columns = [''a'', ''c''], rws = [[Some 2, Some 99], [Some 3, Some 100]]\<rparr>
       (ByList []) False (''_x'', ''_y'') False
     = Inr (Tibble \<lparr>columns = [''a_x'', ''b'', ''a_y'', ''c''],
                   rws = [[Some 1, Some 10, Some 2, Some 99],
                          [Some 1, Some 10, Some 3, Some 100],
                          [Some 2, Some 20, Some 2, Some 99],
                          [Some 2, Some 20, Some 3, Some 100]]\<rparr>)
   \<and> right_join (Tibble \<lparr>columns = [''a'', ''b''], rws = [[Some 1, Some 10], [Some 2, Some 20]]\<rparr>)
       \<lparr>columns = [''a'', ''c''], rws = [[Some 2, Some 99], [Some 3, Some 100]]\<rparr>
       ByNone False (''_x'', ''_y'') False
     = Inr (Tibble \<lparr>columns = [''a'', ''b'', ''c''],
                   rws = [[Some 2, Some 20, Some 99], [Some 3, None, Some 100]]\<rparr>)"
proof -
  have c: "cross_by (ByList [])" by simp
  have h: "Right \<noteq> Cross" by simp
  have e: "right_join (Tibble \<lparr>columns = [''a'', ''b''], rws = [[Some 1, Some 10], [Some 2, Some 20]]\<rparr>)
       \<lparr>columns = [''a'', ''c''], rws = [[Some 2, Some 99], [Some 3, Some 100]]\<rparr>
       (ByList []) False (''_x'', ''_y'') False
     = Inr (Tibble \<lparr>columns = [''a_x'', ''b'', ''a_y'', ''c''],
                   rws = [[Some 1, Some 10, Some 2, Some 99],
                          [Some 1, Some 10, Some 3, Some 100],
                          [Some 2, Some 20, Some 2, Some 99],
                          [Some 2, Some 20, Some 3, Some 100]]\<rparr>)"
    by code_simp
  have i: "right_join (Tibble \<lparr>columns = [''a'', ''b''], rws = [[Some 1, Some 10], [Some 2, Some 20]]\<rparr>)
       \<lparr>columns = [''a'', ''c''], rws = [[Some 2, Some 99], [Some 3, Some 100]]\<rparr>
       ByNone False (''_x'', ''_y'') False
     = Inr (Tibble \<lparr>columns = [''a'', ''b'', ''c''],
                   rws = [[Some 2, Some 20, Some 99], [Some 3, None, Some 100]]\<rparr>)"
    by code_simp
  show ?thesis
    using empty_by_is_cross_join
      [of "ByList []"
          "Tibble \<lparr>columns = [''a'', ''b''], rws = [[Some 1, Some 10], [Some 2, Some 20]]\<rparr>"
          "\<lparr>columns = [''a'', ''c''], rws = [[Some 2, Some 99], [Some 3, Some 100]]\<rparr>"
          False "(''_x'', ''_y'')" False Right]
    by - (intro conjI, (rule c h e i)+)
qed

subsection \<open>right\_join\<close>













subsection \<open>semi\_join and anti\_join\<close>

text \<open>
  C5 does not hold of the code. With \<open>by = None\<close> \<open>semi_join\<close> removes the duplicates
  of \<open>y\<close> by all columns of \<open>y\<close>, not by the key: two rows of \<open>y\<close> with the key 1 and
  different \<open>c\<close> both stay and the one row of \<open>x\<close> comes out twice. With the key given
  as \<open>by = ["a"]\<close> the same call returns the row once. \<open>anti_join\<close> of the tables of
  the specification returns the row \<open>a = 1, b = 10\<close>.
\<close>

theorem semi_join_duplicates_left_row:
  "semi_join (Tibble \<lparr>columns = [''a''], rws = [[Some 1]]\<rparr>)
       \<lparr>columns = [''a'', ''c''], rws = [[Some 1, Some 5], [Some 1, Some 6]]\<rparr> ByNone False
     = Inr (Tibble \<lparr>columns = [''a''], rws = [[Some 1], [Some 1]]\<rparr>)
   \<and> semi_join (Tibble \<lparr>columns = [''a''], rws = [[Some 1]]\<rparr>)
       \<lparr>columns = [''a'', ''c''], rws = [[Some 1, Some 5], [Some 1, Some 6]]\<rparr> (ByList [''a'']) False
     = Inr (Tibble \<lparr>columns = [''a''], rws = [[Some 1]]\<rparr>)
   \<and> anti_join (Tibble \<lparr>columns = [''a'', ''b''], rws = [[Some 1, Some 10], [Some 2, Some 20]]\<rparr>)
       \<lparr>columns = [''a'', ''c''], rws = [[Some 2, Some 99], [Some 3, Some 100]]\<rparr> (ByList [''a'']) False
     = Inr (Tibble \<lparr>columns = [''a'', ''b''], rws = [[Some 1, Some 10]]\<rparr>)"
  by code_simp

section \<open>Properties of name selection\<close>

text \<open>
  C9. A strict matcher (\<open>all_of\<close>) raises the unknown-column error whenever a requested
  name is absent from the table's columns (and otherwise returns the request unchanged);
  a permissive matcher (\<open>any_of\<close>) never raises, returns exactly the requested names
  that exist, in request order, and returns the empty selection when none exists.
\<close>

theorem all_of_strict_any_of_permissive:
  "((\<exists>e \<in> set x. e \<notin> set cols) \<longrightarrow>
      all_of cols x = Inl (ColumnNotExistingError (set x - set cols)))
   \<and> (set x \<subseteq> set cols \<longrightarrow> all_of cols x = Inr x)
   \<and> (\<exists>ys. any_of cols x vars = Inr ys)
   \<and> any_of cols x None = Inr [e \<leftarrow> x. e \<in> set cols]
   \<and> (set x \<inter> set cols = {} \<longrightarrow> any_of cols x None = Inr [])"
proof -
  have "set x \<inter> set cols = {} \<Longrightarrow> [e \<leftarrow> x. e \<in> set cols] = []"
    by (induction x) auto
  then show ?thesis
    by (auto simp: all_of_def any_of_def Let_def)
qed

theorem all_of_strict_any_of_permissive_witness:
  "all_of [''a'', ''b''] [''a'', ''z''] = Inl (ColumnNotExistingError {''z''})
   \<and> all_of [''a'', ''b''] [''b''] = Inr [''b'']
   \<and> any_of [''a'', ''b''] [''a'', ''z''] None = Inr [''a'']
   \<and> any_of [''a'', ''b''] [''y'', ''z''] None = Inr []"
  using all_of_strict_any_of_permissive [of "[''a'', ''z'']" "[''a'', ''b'']" None]
        all_of_strict_any_of_permissive [of "[''b'']" "[''a'', ''b'']" None]
        all_of_strict_any_of_permissive [of "[''y'', ''z'']" "[''a'', ''b'']" None]
  by auto

end
